theory Spec2Isabelle
  imports Main "HOL-Library.Word" "HOL-Library.Sublist"
begin

section \<open>Strings and values of the host language\<close>

text \<open>
  A JavaScript string is a sequence of UTF-16 code units, and \<open>.length\<close> counts code
  units. The literals of the source are ASCII, so \<open>utf16\<close> maps each of their
  characters to the code unit of the same number.
\<close>

type_synonym code_unit = "16 word"
type_synonym js_string = "code_unit list"

definition utf16 :: "string \<Rightarrow> js_string" where
  "utf16 cs = map of_char cs"

text \<open>
  Modelled from the spec: how the validator behind \<open>ai.defineFlow\<close>, which is not
  among the sources, measures a string. The specification gives the document text a
  "minimum length 100 characters". A character is a Unicode code point: a high surrogate
  followed by a low surrogate is one character, every other code unit is one character,
  so a text can have fewer characters than \<open>.length\<close> code units.
\<close>

definition is_high_surrogate :: "code_unit \<Rightarrow> bool" where
  "is_high_surrogate c = (0xD800 \<le> c \<and> c \<le> 0xDBFF)"

definition is_low_surrogate :: "code_unit \<Rightarrow> bool" where
  "is_low_surrogate c = (0xDC00 \<le> c \<and> c \<le> 0xDFFF)"

fun character_count :: "js_string \<Rightarrow> nat" where
  "character_count [] = 0"
| "character_count [c] = 1"
| "character_count (c # d # cs) =
     (if is_high_surrogate c \<and> is_low_surrogate d then Suc (character_count cs)
      else Suc (character_count (d # cs)))"

text \<open>
  Values as they exist at run time, where no static type is enforced: what the model
  endpoint hands back is parsed JSON, and an absent property reads \<open>undefined\<close>.
  Numbers occur in neither schema of the source; they are kept as integers, which is
  enough to tell a zero from a non-zero number in a truthiness test.
\<close>

datatype js_value =
    JUndefined
  | JNull
  | JBool bool
  | JNum int
  | JStr js_string
  | JArr "js_value list"
  | JObj "(js_string \<times> js_value) list"

text \<open>\<open>!v\<close> holds exactly for the falsy values.\<close>

fun falsy :: "js_value \<Rightarrow> bool" where
  "falsy JUndefined = True"
| "falsy JNull = True"
| "falsy (JBool b) = (\<not> b)"
| "falsy (JNum n) = (n = 0)"
| "falsy (JStr s) = (s = [])"
| "falsy (JArr xs) = False"
| "falsy (JObj ps) = False"

text \<open>Reading a property: \<open>undefined\<close> when the object does not have it.\<close>

fun get_prop :: "js_value \<Rightarrow> js_string \<Rightarrow> js_value" where
  "get_prop (JObj ps) k = (case map_of ps k of None \<Rightarrow> JUndefined | Some v \<Rightarrow> v)"
| "get_prop v k = JUndefined"

section \<open>Schemas\<close>

text \<open>
  The zod combinators the source uses: \<open>z.string()\<close>, \<open>z.string().min(n)\<close>,
  \<open>z.boolean()\<close>, \<open>.optional()\<close>, \<open>z.array(...)\<close> and \<open>z.object({...})\<close>.
  \<open>.describe(...)\<close> attaches documentation only and is dropped.
\<close>

datatype zod =
    ZString
  | ZStringMin nat
  | ZBoolean
  | ZOptional zod
  | ZArray zod
  | ZObject "(string \<times> zod) list"

text \<open>
  Modelled from the spec: the check of a value against a declared schema, which
  \<open>ai.defineFlow\<close> runs and which is not among the sources. \<open>conforms z v\<close>: the
  value \<open>v\<close> is accepted by the schema \<open>z\<close>. A string with a minimum length is
  measured in characters, as the specification's "minimum length 100 characters" has it.
  An object schema reads each declared key from the value; keys it does not declare are
  not looked at.
\<close>

fun conforms :: "zod \<Rightarrow> js_value \<Rightarrow> bool" where
  "conforms ZString v = (case v of JStr s \<Rightarrow> True | _ \<Rightarrow> False)"
| "conforms (ZStringMin n) v = (case v of JStr s \<Rightarrow> n \<le> character_count s | _ \<Rightarrow> False)"
| "conforms ZBoolean v = (case v of JBool b \<Rightarrow> True | _ \<Rightarrow> False)"
| "conforms (ZOptional z) v = (v = JUndefined \<or> conforms z v)"
| "conforms (ZArray z) v = (case v of JArr xs \<Rightarrow> list_all (conforms z) xs | _ \<Rightarrow> False)"
| "conforms (ZObject shape) v =
     (case v of
        JObj ps \<Rightarrow> list_all (\<lambda>f. conforms (snd f) (get_prop v (utf16 (fst f)))) shape
      | _ \<Rightarrow> False)"

text \<open>Input schema: takes the extracted text from the PDF.\<close>

record AnalyzeLoanDocumentInput =
  pdfTextContent :: js_string

definition AnalyzeLoanDocumentInputSchema :: zod where
  "AnalyzeLoanDocumentInputSchema = ZObject [(''pdfTextContent'', ZStringMin 100)]"

text \<open>The object a value of the input type is at run time.\<close>

definition input_value :: "AnalyzeLoanDocumentInput \<Rightarrow> js_value" where
  "input_value input = JObj [(utf16 ''pdfTextContent'', JStr (pdfTextContent input))]"

text \<open>Output schema: structured analysis, one entry per declared field, in source order.\<close>

definition detailed_analysis_entry :: zod where
  "detailed_analysis_entry = ZObject
     [(''flag_key'', ZString),
      (''finding'', ZString),
      (''is_red_flag'', ZOptional ZBoolean)]"

definition AnalyzeLoanDocumentOutputSchema :: zod where
  "AnalyzeLoanDocumentOutputSchema = ZObject
     [(''use_of_urgent_language'', ZBoolean),
      (''emotional_appeals'', ZBoolean),
      (''hidden_conditions_detected'', ZBoolean),
      (''complex_language_used'', ZBoolean),
      (''aggressive_marketing_detected'', ZBoolean),
      (''loan_app_authenticity_verified'', ZOptional ZBoolean),
      (''phishing_indicators_present'', ZBoolean),
      (''loan_disbursement_method'', ZOptional ZString),
      (''repayment_method'', ZOptional ZString),
      (''suspicious_permissions_requested'', ZOptional ZBoolean),
      (''disclosure_of_total_cost'', ZBoolean),
      (''regulatory_registration_status'', ZOptional ZBoolean),
      (''consumer_rights_info_provided'', ZBoolean),
      (''grace_period_provided'', ZBoolean),
      (''early_repayment_penalty_present'', ZBoolean),
      (''rollover_clauses_detected'', ZBoolean),
      (''dynamic_interest_rate_clause'', ZBoolean),
      (''user_felt_pressured_to_accept'', ZOptional ZBoolean),
      (''user_understood_terms_before_accepting'', ZOptional ZBoolean),
      (''overall_summary'', ZString),
      (''detailed_analysis'', ZArray detailed_analysis_entry)]"

section \<open>Errors and the external dependency\<close>

text \<open>
  What a \<open>catch (error: any)\<close> clause can receive. \<open>ThrownNullish\<close> is a thrown
  \<open>null\<close> or \<open>undefined\<close>, on which reading \<open>.message\<close> itself raises a
  \<open>TypeError\<close>. \<open>Thrown m\<close> is any other thrown value, with \<open>m\<close> its \<open>message\<close>:
  \<open>Some\<close> of the string an \<open>Error\<close> object carries, \<open>None\<close> where the
  property reads \<open>undefined\<close> (a thrown string, or an object without one). A
  \<open>message\<close> that is not a string is not represented.
\<close>

datatype thrown = ThrownNullish | Thrown "js_string option"

text \<open>
  The prompt invocation \<open>await prompt(input)\<close> either rejects with a thrown value or
  resolves to a response whose \<open>output\<close> property is the parsed result. A call that
  never settles is outside the model.
\<close>

datatype prompt_outcome = Rejected thrown | Resolved js_value

text \<open>
  The dependency is a parameter. Its own state (the \<open>ai\<close> instance and the provider
  behind it, or the call log of a mock) is threaded through as \<open>'s\<close>. The module
  declares constants only; the console it writes to is added in the section on the
  console.
\<close>

type_synonym 's prompt_fn = "AnalyzeLoanDocumentInput \<Rightarrow> 's \<Rightarrow> prompt_outcome \<times> 's"

text \<open>
  The errors a caller of the flow can see: the two schema failures of the flow wrapper,
  the \<open>Error\<close> built in the catch clause with its message, and the \<open>TypeError\<close>
  of the catch clause's own property read.
\<close>

datatype flow_error =
    ValidationError
  | OutputValidationError
  | AnalysisError js_string
  | TypeError

type_synonym flow_result = "flow_error + js_value"

section \<open>The flow\<close>

text \<open>
  The \<open>try\<close> block: one call of the prompt, then the check \<open>if (!output)\<close>, whose
  \<open>throw new Error(...)\<close> is raised inside the block and so reaches the same handler
  as a rejection of the prompt.
\<close>

definition flow_try :: "'s prompt_fn \<Rightarrow> AnalyzeLoanDocumentInput \<Rightarrow> 's \<Rightarrow> (thrown + js_value) \<times> 's" where
  "flow_try prompt input s =
     (case prompt input s of
        (Rejected e, s') \<Rightarrow> (Inl e, s')
      | (Resolved output, s') \<Rightarrow>
          if falsy output
          then (Inl (Thrown (Some (utf16 ''AI analysis failed to generate a response.''))), s')
          else (Inr output, s'))"

text \<open>
  The \<open>catch\<close> clause: the message is
  \<open>`Failed to analyze loan document: ${error.message || 'Unknown AI Error'}`\<close>,
  where \<open>||\<close> takes its right operand for an undefined or empty message.
\<close>

definition flow_catch :: "thrown \<Rightarrow> flow_error" where
  "flow_catch error =
     (case error of
        ThrownNullish \<Rightarrow> TypeError
      | Thrown message \<Rightarrow>
          AnalysisError (utf16 ''Failed to analyze loan document: '' @
            (case message of
               None \<Rightarrow> utf16 ''Unknown AI Error''
             | Some m \<Rightarrow> if m = [] then utf16 ''Unknown AI Error'' else m)))"

text \<open>The function given to \<open>ai.defineFlow\<close>.\<close>

definition analyzeLoanDocumentFlow_fn :: "'s prompt_fn \<Rightarrow> AnalyzeLoanDocumentInput \<Rightarrow> 's \<Rightarrow> flow_result \<times> 's" where
  "analyzeLoanDocumentFlow_fn prompt input s =
     (case flow_try prompt input s of
        (Inr output, s') \<Rightarrow> (Inr output, s')
      | (Inl error, s') \<Rightarrow> (Inl (flow_catch error), s'))"

text \<open>
  Modelled from the spec: \<open>ai.defineFlow\<close>, a method of the instance exported by
  \<open>@/ai/ai-instance\<close>, which is not among the sources. The specification has the
  analyzer "validate input against the request schema (reject before any external call if
  the minimum-length constraint is violated)" and fail when the call "returns an output
  that cannot be parsed against the expected schema"; a result that passes is returned
  as it is.
\<close>

definition defineFlow ::
  "zod \<Rightarrow> zod \<Rightarrow> (AnalyzeLoanDocumentInput \<Rightarrow> 's \<Rightarrow> flow_result \<times> 's)
     \<Rightarrow> AnalyzeLoanDocumentInput \<Rightarrow> 's \<Rightarrow> flow_result \<times> 's" where
  "defineFlow inputSchema outputSchema fn input s =
     (if \<not> conforms inputSchema (input_value input) then (Inl ValidationError, s)
      else
        (case fn input s of
           (Inl e, s') \<Rightarrow> (Inl e, s')
         | (Inr output, s') \<Rightarrow>
             if conforms outputSchema output then (Inr output, s')
             else (Inl OutputValidationError, s')))"

definition analyzeLoanDocumentFlow :: "'s prompt_fn \<Rightarrow> AnalyzeLoanDocumentInput \<Rightarrow> 's \<Rightarrow> flow_result \<times> 's" where
  "analyzeLoanDocumentFlow prompt =
     defineFlow AnalyzeLoanDocumentInputSchema AnalyzeLoanDocumentOutputSchema
       (analyzeLoanDocumentFlow_fn prompt)"

text \<open>
  The exported wrapper. Its \<open>console.log\<close> of the text length, like the other console
  output of the file, is left out here; the section on the console gives the same
  functions with the console threaded through.
\<close>

definition analyzeLoanDocument :: "'s prompt_fn \<Rightarrow> AnalyzeLoanDocumentInput \<Rightarrow> 's \<Rightarrow> flow_result \<times> 's" where
  "analyzeLoanDocument prompt input s = analyzeLoanDocumentFlow prompt input s"

section \<open>The console\<close>

text \<open>
  The five console statements of the file, with their arguments: a text, the number
  \<open>input.pdfTextContent.length\<close>, or the caught value.
\<close>

datatype console_arg = ArgText js_string | ArgNumber nat | ArgThrown thrown

datatype console_entry = ConsoleLog "console_arg list" | ConsoleError "console_arg list"

text \<open>
  The state a call runs in and leaves to the next call: the console, which every call of
  the process writes to, and the state of the dependency, which stands for everything
  behind the prompt invocation (the \<open>ai\<close> instance and the provider). The module itself
  declares constants only.
\<close>

record 's world =
  console :: "console_entry list"
  dependency_state :: 's

definition console_write :: "console_entry \<Rightarrow> 's world \<Rightarrow> 's world" where
  "console_write e w = w\<lparr>console := console w @ [e]\<rparr>"

text \<open>The \<open>try\<close> block with its \<open>console.error\<close> and \<open>console.log\<close>.\<close>

definition flow_try_io ::
  "'s prompt_fn \<Rightarrow> AnalyzeLoanDocumentInput \<Rightarrow> 's world \<Rightarrow> (thrown + js_value) \<times> 's world" where
  "flow_try_io prompt input w =
     (case prompt input (dependency_state w) of
        (Rejected e, s') \<Rightarrow> (Inl e, w\<lparr>dependency_state := s'\<rparr>)
      | (Resolved output, s') \<Rightarrow>
          if falsy output
          then (Inl (Thrown (Some (utf16 ''AI analysis failed to generate a response.''))),
                console_write
                  (ConsoleError
                    [ArgText (utf16 ''[analyzeLoanDocumentFlow] AI did not return a valid output.'')])
                  (w\<lparr>dependency_state := s'\<rparr>))
          else (Inr output,
                console_write
                  (ConsoleLog [ArgText (utf16 ''[analyzeLoanDocumentFlow] Analysis successful.'')])
                  (w\<lparr>dependency_state := s'\<rparr>)))"

text \<open>
  The function given to \<open>ai.defineFlow\<close>: it logs, runs the \<open>try\<close> block, and in the
  \<open>catch\<close> clause logs the caught value before it builds the error.
\<close>

definition analyzeLoanDocumentFlow_fn_io ::
  "'s prompt_fn \<Rightarrow> AnalyzeLoanDocumentInput \<Rightarrow> 's world \<Rightarrow> flow_result \<times> 's world" where
  "analyzeLoanDocumentFlow_fn_io prompt input w =
     (case flow_try_io prompt input
             (console_write
               (ConsoleLog [ArgText (utf16 ''[analyzeLoanDocumentFlow] Analyzing text content...'')]) w) of
        (Inr output, w') \<Rightarrow> (Inr output, w')
      | (Inl error, w') \<Rightarrow>
          (Inl (flow_catch error),
           console_write
             (ConsoleError
               [ArgText (utf16 ''[analyzeLoanDocumentFlow] Error during AI analysis:''),
                ArgThrown error])
             w'))"

definition analyzeLoanDocumentFlow_io ::
  "'s prompt_fn \<Rightarrow> AnalyzeLoanDocumentInput \<Rightarrow> 's world \<Rightarrow> flow_result \<times> 's world" where
  "analyzeLoanDocumentFlow_io prompt =
     defineFlow AnalyzeLoanDocumentInputSchema AnalyzeLoanDocumentOutputSchema
       (analyzeLoanDocumentFlow_fn_io prompt)"

text \<open>The exported wrapper: it logs the text length, then calls the flow.\<close>

definition analyzeLoanDocument_io ::
  "'s prompt_fn \<Rightarrow> AnalyzeLoanDocumentInput \<Rightarrow> 's world \<Rightarrow> flow_result \<times> 's world" where
  "analyzeLoanDocument_io prompt input w =
     analyzeLoanDocumentFlow_io prompt input
       (console_write
         (ConsoleLog
           [ArgText (utf16 ''[analyzeLoanDocument] Calling flow with text length:''),
            ArgNumber (length (pdfTextContent input))])
         w)"

section \<open>The prompt\<close>

text \<open>
  The template of the prompt, line by line as in the source: the lines before the
  delimited document, the three lines of the document block, and the instructions after it.
\<close>

definition promptIntro :: string where
  "promptIntro =
     ''You are an expert loan contract analyzer. Your task is to meticulously review the provided loan document text content and identify potential red flags, manipulative tactics, and unclear terms based on the specific criteria listed in the output schema.\<newline>'' @
     ''\<newline>'' @
     ''Analyze the following loan document text:\<newline>''"

definition promptInstructions :: string where
  "promptInstructions =
     ''\<newline>'' @
     ''Carefully evaluate the text against each field in the output schema. For each boolean field, determine if the condition is met based *only* on the provided text. If the text doesn't provide enough information for a boolean field (especially optional ones like 'regulatory_registration_status' or 'loan_app_authenticity_verified'), determine the most likely value or default to false/null if inference is not possible. For text fields like 'loan_disbursement_method', extract the relevant information if present.\<newline>'' @
     ''\<newline>'' @
     ''For the 'detailed_analysis' array:\<newline>'' @
     ''- For each check (corresponding to the keys in the output schema), provide a brief 'finding' explaining the reasoning or quoting relevant text snippets.\<newline>'' @
     ''- Indicate if the finding is generally considered a 'is_red_flag' (true if it's a potential negative for the borrower, false or omit otherwise).\<newline>'' @
     ''\<newline>'' @
     ''For the 'overall_summary', synthesize your findings into a concise paragraph highlighting the most critical red flags (e.g., hidden fees, complex language, pressure tactics) or positive aspects (e.g., clear terms, consumer rights mentioned). Focus on actionable insights for the user.\<newline>'' @
     ''\<newline>'' @
     ''Provide your analysis strictly in the requested JSON format matching the output schema.''"

definition promptTemplate :: js_string where
  "promptTemplate = utf16
    (promptIntro @
     ''--- START DOCUMENT TEXT ---\<newline>'' @
     ''{{{pdfTextContent}}}\<newline>'' @
     ''--- END DOCUMENT TEXT ---\<newline>'' @
     promptInstructions)"

text \<open>
  Modelled from the spec: the rendering done by \<open>ai.definePrompt\<close>, a method of the
  instance exported by \<open>@/ai/ai-instance\<close>, which is not among the sources. The
  specification describes "a prompt template with one substitution slot for the document
  text" into which the analyzer interpolates the text: every occurrence of the slot is
  replaced by the value, which is inserted as it is and not scanned again.
\<close>

function substitute :: "'a list \<Rightarrow> 'a list \<Rightarrow> 'a list \<Rightarrow> 'a list" where
  "substitute slot v [] = []"
| "substitute slot v (c # cs) =
     (if slot \<noteq> [] \<and> prefix slot (c # cs)
      then v @ substitute slot v (drop (length slot - 1) cs)
      else c # substitute slot v cs)"
  by pat_completeness auto
termination
  by (relation "measure (\<lambda>(slot, v, t). length t)") auto

definition render :: "js_string \<Rightarrow> AnalyzeLoanDocumentInput \<Rightarrow> js_string" where
  "render template input =
     substitute (utf16 ''{{{pdfTextContent}}}'') (pdfTextContent input) template"

text \<open>
  Modelled from the spec: the callable returned by \<open>ai.definePrompt\<close>. The
  specification has the analyzer "submit the rendered prompt plus the schema descriptor to
  the external model endpoint"; the endpoint is a parameter.
\<close>

type_synonym 's endpoint = "js_string \<Rightarrow> zod \<Rightarrow> 's \<Rightarrow> prompt_outcome \<times> 's"

definition definePrompt :: "'s endpoint \<Rightarrow> zod \<Rightarrow> js_string \<Rightarrow> 's prompt_fn" where
  "definePrompt endpoint outputSchema template input s =
     endpoint (render template input) outputSchema s"

definition prompt :: "'s endpoint \<Rightarrow> 's prompt_fn" where
  "prompt endpoint = definePrompt endpoint AnalyzeLoanDocumentOutputSchema promptTemplate"

section \<open>Instrumentation\<close>

text \<open>
  A dependency with a call counter beside its state: every invocation adds one. This is
  the mock with a call count of the specification's test plan, for any behaviour \<open>p\<close>.
\<close>

definition counted :: "'s prompt_fn \<Rightarrow> ('s \<times> nat) prompt_fn" where
  "counted p input sn = (case p input (fst sn) of (r, s') \<Rightarrow> (r, (s', Suc (snd sn))))"

section \<open>Sample data\<close>

text \<open>
  The fixtures of the specification's test plan: a document text containing the phrase
  \<open>act now, limited time offer\<close>, a text below the minimum length, a text of exactly
  the minimum length, a text of fifty emoji (U+1F600, two code units each), a model
  response that sets \<open>use_of_urgent_language\<close>, and a stub dependency that answers
  every call alike and counts its calls.
\<close>

definition sample_text :: js_string where
  "sample_text = utf16 ''act now, limited time offer'' @ replicate 100 (of_char CHR ''.'')"

definition sample_input :: AnalyzeLoanDocumentInput where
  "sample_input = \<lparr>pdfTextContent = sample_text\<rparr>"




definition sample_output :: js_value where
  "sample_output = JObj
     [(utf16 ''use_of_urgent_language'', JBool True),
      (utf16 ''emotional_appeals'', JBool False),
      (utf16 ''hidden_conditions_detected'', JBool False),
      (utf16 ''complex_language_used'', JBool False),
      (utf16 ''aggressive_marketing_detected'', JBool False),
      (utf16 ''phishing_indicators_present'', JBool False),
      (utf16 ''loan_disbursement_method'', JStr (utf16 ''Bank Transfer'')),
      (utf16 ''disclosure_of_total_cost'', JBool True),
      (utf16 ''consumer_rights_info_provided'', JBool True),
      (utf16 ''grace_period_provided'', JBool False),
      (utf16 ''early_repayment_penalty_present'', JBool False),
      (utf16 ''rollover_clauses_detected'', JBool False),
      (utf16 ''dynamic_interest_rate_clause'', JBool False),
      (utf16 ''overall_summary'', JStr (utf16 ''Urgent language detected.'')),
      (utf16 ''detailed_analysis'', JArr
         [JObj [(utf16 ''flag_key'', JStr (utf16 ''use_of_urgent_language'')),
                (utf16 ''finding'', JStr (utf16 ''Detected phrase: act now'')),
                (utf16 ''is_red_flag'', JBool True)],
          JObj [(utf16 ''flag_key'', JStr (utf16 ''grace_period_provided'')),
                (utf16 ''finding'', JStr (utf16 ''No grace period mentioned''))]])]"

definition stub :: "prompt_outcome \<Rightarrow> nat prompt_fn" where
  "stub r input n = (r, Suc n)"

section \<open>Facts about the flow\<close>


lemma character_count_plain:
  "list_all (\<lambda>c. \<not> is_high_surrogate c) cs \<Longrightarrow> character_count cs = length cs"
  by (induction cs rule: character_count.induct) auto

lemma of_char_not_high: "\<not> is_high_surrogate (of_char c)"
proof -
  have u: "unat (of_char c :: code_unit) = (of_char c :: nat)"
    by (rule of_nat_inverse [OF of_nat_of_char]) (rule less_trans [OF nat_of_char_less_256], simp)
  have "(of_char c :: nat) < 256" by simp
  then have "\<not> (55296 \<le> (of_char c :: nat))" by linarith
  then show ?thesis
    by (simp add: is_high_surrogate_def word_le_nat_alt u)
qed

lemma utf16_plain: "list_all (\<lambda>c. \<not> is_high_surrogate c) (utf16 cs)"
  by (simp add: utf16_def list_all_iff of_char_not_high)

lemma replicate_plain:
  "\<not> is_high_surrogate c \<Longrightarrow> list_all (\<lambda>c. \<not> is_high_surrogate c) (replicate n c)"
  by (simp add: list_all_iff)



lemma conforms_input_iff:
  "conforms AnalyzeLoanDocumentInputSchema (input_value input) \<longleftrightarrow>
   100 \<le> character_count (pdfTextContent input)"
  by (simp add: AnalyzeLoanDocumentInputSchema_def input_value_def)

lemma sample_text_length: "length sample_text = 127"
  by (simp add: sample_text_def utf16_def)

lemma sample_output_conforms: "conforms AnalyzeLoanDocumentOutputSchema sample_output"
  by (simp add: AnalyzeLoanDocumentOutputSchema_def sample_output_def detailed_analysis_entry_def utf16_def)

lemma analyzeLoanDocument_invalid:
  "character_count (pdfTextContent input) < 100 \<Longrightarrow>
   analyzeLoanDocument dep input s = (Inl ValidationError, s)"
  by (simp add: analyzeLoanDocument_def analyzeLoanDocumentFlow_def defineFlow_def conforms_input_iff)

lemma analyzeLoanDocument_valid:
  "100 \<le> character_count (pdfTextContent input) \<Longrightarrow>
   analyzeLoanDocument dep input s =
     (case dep input s of
        (Rejected e, s') \<Rightarrow> (Inl (flow_catch e), s')
      | (Resolved output, s') \<Rightarrow>
          if falsy output
          then (Inl (flow_catch (Thrown (Some (utf16 ''AI analysis failed to generate a response.'')))), s')
          else if conforms AnalyzeLoanDocumentOutputSchema output then (Inr output, s')
          else (Inl OutputValidationError, s'))"
  by (simp add: analyzeLoanDocument_def analyzeLoanDocumentFlow_def defineFlow_def conforms_input_iff
      analyzeLoanDocumentFlow_fn_def flow_try_def split: prod.splits prompt_outcome.splits)

lemma conforms_object_truthy: "conforms (ZObject fs) v \<Longrightarrow> \<not> falsy v"
  by (cases v) simp_all

lemma output_conforms_truthy: "conforms AnalyzeLoanDocumentOutputSchema v \<Longrightarrow> \<not> falsy v"
  unfolding AnalyzeLoanDocumentOutputSchema_def by (rule conforms_object_truthy)

lemma utf16_literal_append: "utf16 a @ utf16 b = utf16 (a @ b)"
  by (simp add: utf16_def)


lemma sample_input_length: "100 \<le> length (pdfTextContent sample_input)"
  by (simp add: sample_input_def sample_text_length)

lemma sample_input_characters: "100 \<le> character_count (pdfTextContent sample_input)"
proof -
  have "list_all (\<lambda>c. \<not> is_high_surrogate c) sample_text"
    unfolding sample_text_def list_all_append
    by (intro conjI utf16_plain replicate_plain of_char_not_high)
  then have "character_count sample_text = length sample_text"
    by (rule character_count_plain)
  then show ?thesis
    by (simp add: sample_input_def sample_text_length)
qed






lemma sample_output_not_null: "sample_output \<noteq> JNull"
  by (simp add: sample_output_def)

lemma conforms_ZString_iff: "conforms ZString v \<longleftrightarrow> (\<exists>s. v = JStr s)"
  by (cases v) simp_all

lemma conforms_ZBoolean_iff: "conforms ZBoolean v \<longleftrightarrow> (\<exists>b. v = JBool b)"
  by (cases v) simp_all

lemma conforms_ZArray_iff:
  "conforms (ZArray z) v \<longleftrightarrow> (\<exists>xs. v = JArr xs \<and> list_all (conforms z) xs)"
  by (cases v) simp_all

lemma conforms_entry:
  assumes "conforms detailed_analysis_entry e"
  shows "(\<exists>ps. e = JObj ps) \<and>
         (\<exists>k. get_prop e (utf16 ''flag_key'') = JStr k) \<and>
         (\<exists>f. get_prop e (utf16 ''finding'') = JStr f) \<and>
         (get_prop e (utf16 ''is_red_flag'') = JUndefined \<or>
          (\<exists>b. get_prop e (utf16 ''is_red_flag'') = JBool b))"
proof (cases e)
  case (JObj ps)
  with assms show ?thesis
    by (simp add: detailed_analysis_entry_def conforms_ZString_iff conforms_ZBoolean_iff
        del: conforms.simps(1,3) get_prop.simps)
qed (use assms in \<open>simp_all add: detailed_analysis_entry_def\<close>)

lemma conforms_output_detailed_analysis:
  assumes "conforms AnalyzeLoanDocumentOutputSchema v"
  shows "conforms (ZArray detailed_analysis_entry) (get_prop v (utf16 ''detailed_analysis''))"
proof (cases v)
  case (JObj ps)
  with assms show ?thesis
    by (simp add: AnalyzeLoanDocumentOutputSchema_def del: conforms.simps(1,3,4,5) get_prop.simps)
qed (use assms in \<open>simp_all add: AnalyzeLoanDocumentOutputSchema_def\<close>)

lemma analyzeLoanDocument_success:
  assumes "analyzeLoanDocument dep input s = (Inr result, s')"
  shows "100 \<le> character_count (pdfTextContent input) \<and> dep input s = (Resolved result, s') \<and>
         conforms AnalyzeLoanDocumentOutputSchema result"
proof (cases "100 \<le> character_count (pdfTextContent input)")
  case True
  with assms show ?thesis
    by (auto simp add: analyzeLoanDocument_valid split: prod.splits prompt_outcome.splits if_splits)
next
  case False
  with assms show ?thesis by (simp add: analyzeLoanDocument_invalid)
qed


section \<open>Input validation\<close>






section \<open>Failures of the dependency\<close>

text \<open>
  C2. For every input of at least 100 characters, if the dependency raises an error with
  a non-empty message \<open>m\<close> (such as \<open>boom\<close>), the call fails with the one error of the
  catch clause, whose message is the fixed prefix followed by \<open>m\<close> and so contains \<open>m\<close>.
\<close>

theorem upstream_error_wrapped:
  assumes "100 \<le> character_count (pdfTextContent input)"
    and "dep input s = (Rejected (Thrown (Some m)), s')"
    and "m \<noteq> []"
  shows "analyzeLoanDocument dep input s =
           (Inl (AnalysisError (utf16 ''Failed to analyze loan document: '' @ m)), s') \<and>
         sublist m (utf16 ''Failed to analyze loan document: '' @ m)"
  using assms by (simp add: analyzeLoanDocument_valid flow_catch_def)

theorem upstream_error_wrapped_witness:
  "100 \<le> character_count (pdfTextContent sample_input) \<and>
   stub (Rejected (Thrown (Some (utf16 ''boom'')))) sample_input 0 =
     (Rejected (Thrown (Some (utf16 ''boom''))), Suc 0) \<and>
   utf16 ''boom'' \<noteq> [] \<and>
   analyzeLoanDocument (stub (Rejected (Thrown (Some (utf16 ''boom''))))) sample_input 0 =
     (Inl (AnalysisError (utf16 ''Failed to analyze loan document: boom'')), Suc 0) \<and>
   sublist (utf16 ''boom'') (utf16 ''Failed to analyze loan document: boom'')"
proof -
  have h1: "100 \<le> character_count (pdfTextContent sample_input)"
    by (rule sample_input_characters)
  have h2: "stub (Rejected (Thrown (Some (utf16 ''boom'')))) sample_input 0 =
     (Rejected (Thrown (Some (utf16 ''boom''))), Suc 0)"
    by (simp add: stub_def)
  have h3: "utf16 ''boom'' \<noteq> []"
    by (simp add: utf16_def)
  show ?thesis
    using h1 h2 h3 upstream_error_wrapped
      [of sample_input "stub (Rejected (Thrown (Some (utf16 ''boom''))))" 0 "utf16 ''boom''" "Suc 0",
       OF h1 h2 h3]
    by (simp add: utf16_literal_append)
qed

text \<open>
  C3. For every input of at least 100 characters, if the dependency succeeds with a null
  or absent output, the call fails with the error of the catch clause carrying one fixed
  message, which says that the analysis failed to generate a response.
\<close>

theorem missing_output_fails:
  assumes "100 \<le> character_count (pdfTextContent input)"
    and "dep input s = (Resolved output, s')"
    and "output = JNull \<or> output = JUndefined"
  shows "analyzeLoanDocument dep input s =
           (Inl (AnalysisError
              (utf16 ''Failed to analyze loan document: AI analysis failed to generate a response.'')), s')"
  using assms by (auto simp add: analyzeLoanDocument_valid flow_catch_def utf16_def)

theorem missing_output_fails_witness:
  "100 \<le> character_count (pdfTextContent sample_input) \<and>
   stub (Resolved JNull) sample_input 0 = (Resolved JNull, Suc 0) \<and>
   (JNull = JNull \<or> JNull = JUndefined) \<and>
   analyzeLoanDocument (stub (Resolved JNull)) sample_input 0 =
     (Inl (AnalysisError
        (utf16 ''Failed to analyze loan document: AI analysis failed to generate a response.'')), Suc 0)"
proof -
  have h1: "100 \<le> character_count (pdfTextContent sample_input)"
    by (rule sample_input_characters)
  have h2: "stub (Resolved JNull) sample_input 0 = (Resolved JNull, Suc 0)"
    by (simp add: stub_def)
  have h3: "JNull = JNull \<or> JNull = JUndefined"
    by simp
  show ?thesis
    using h1 h2 missing_output_fails
      [of sample_input "stub (Resolved JNull)" 0 JNull "Suc 0", OF h1 h2 h3] by simp
qed

text \<open>
  C9. The catch clause means to give every failure of the dependency the message
  \<open>Failed to analyze loan document: \<close> followed by the upstream message, or by
  \<open>Unknown AI Error\<close> when there is none. It reads \<open>error.message\<close> without a guard:
  when the dependency rejects with \<open>null\<close> or \<open>undefined\<close>, the read itself raises,
  and the call fails with a \<open>TypeError\<close> that has neither the prefix nor the default
  message.
\<close>

theorem nullish_rejection_escapes_unwrapped:
  "analyzeLoanDocument (stub (Rejected ThrownNullish)) sample_input 0 = (Inl TypeError, Suc 0)"
  by (simp add: analyzeLoanDocument_valid sample_input_characters stub_def flow_catch_def)

theorem nullish_rejection_escapes_unwrapped_witness:
  "fst (analyzeLoanDocument (stub (Rejected ThrownNullish)) sample_input 0) = Inl TypeError \<and>
   fst (analyzeLoanDocument (stub (Rejected ThrownNullish)) sample_input 0) \<noteq>
     Inl (AnalysisError (utf16 ''Failed to analyze loan document: Unknown AI Error''))"
  using nullish_rejection_escapes_unwrapped by simp

section \<open>Successful analyses\<close>

text \<open>
  C4. For every input of at least 100 characters, if the dependency returns a non-null
  result that conforms to the output schema, the call returns that very value: nothing
  is added, removed or rewritten on the way.
\<close>

theorem conforming_output_returned_unchanged:
  assumes "100 \<le> character_count (pdfTextContent input)"
    and "dep input s = (Resolved output, s')"
    and "output \<noteq> JNull"
    and "conforms AnalyzeLoanDocumentOutputSchema output"
  shows "analyzeLoanDocument dep input s = (Inr output, s')"
  using assms by (simp add: analyzeLoanDocument_valid output_conforms_truthy)

theorem conforming_output_returned_unchanged_witness:
  "100 \<le> character_count (pdfTextContent sample_input) \<and>
   stub (Resolved sample_output) sample_input 0 = (Resolved sample_output, Suc 0) \<and>
   sample_output \<noteq> JNull \<and>
   conforms AnalyzeLoanDocumentOutputSchema sample_output \<and>
   analyzeLoanDocument (stub (Resolved sample_output)) sample_input 0 = (Inr sample_output, Suc 0)"
proof -
  have h1: "100 \<le> character_count (pdfTextContent sample_input)"
    by (rule sample_input_characters)
  have h2: "stub (Resolved sample_output) sample_input 0 = (Resolved sample_output, Suc 0)"
    by (simp add: stub_def)
  have h3: "sample_output \<noteq> JNull"
    by (simp add: sample_output_def)
  have h4: "conforms AnalyzeLoanDocumentOutputSchema sample_output"
    by (rule sample_output_conforms)
  show ?thesis
    using h1 h2 h3 h4 conforming_output_returned_unchanged
      [of sample_input "stub (Resolved sample_output)" 0 sample_output "Suc 0", OF h1 h2 h3 h4] by simp
qed

text \<open>
  C6. In every successful result the field \<open>detailed_analysis\<close> is an array, and each of
  its entries is an object whose \<open>flag_key\<close> is a string, whose \<open>finding\<close> is a string
  and whose \<open>is_red_flag\<close> is either absent or a boolean.
\<close>

theorem detailed_analysis_shape:
  assumes "analyzeLoanDocument dep input s = (Inr result, s')"
  shows "\<exists>entries. get_prop result (utf16 ''detailed_analysis'') = JArr entries \<and>
           list_all (\<lambda>e. (\<exists>ps. e = JObj ps) \<and>
                         (\<exists>k. get_prop e (utf16 ''flag_key'') = JStr k) \<and>
                         (\<exists>f. get_prop e (utf16 ''finding'') = JStr f) \<and>
                         (get_prop e (utf16 ''is_red_flag'') = JUndefined \<or>
                          (\<exists>b. get_prop e (utf16 ''is_red_flag'') = JBool b))) entries"
proof -
  from assms have "conforms AnalyzeLoanDocumentOutputSchema result"
    by (simp add: analyzeLoanDocument_success)
  then have "conforms (ZArray detailed_analysis_entry) (get_prop result (utf16 ''detailed_analysis''))"
    by (rule conforms_output_detailed_analysis)
  then obtain entries where e: "get_prop result (utf16 ''detailed_analysis'') = JArr entries"
    and all: "list_all (conforms detailed_analysis_entry) entries"
    using conforms_ZArray_iff by blast
  from all have "list_all (\<lambda>e. (\<exists>ps. e = JObj ps) \<and>
                         (\<exists>k. get_prop e (utf16 ''flag_key'') = JStr k) \<and>
                         (\<exists>f. get_prop e (utf16 ''finding'') = JStr f) \<and>
                         (get_prop e (utf16 ''is_red_flag'') = JUndefined \<or>
                          (\<exists>b. get_prop e (utf16 ''is_red_flag'') = JBool b))) entries"
    by (rule list.pred_mono_strong) (rule conforms_entry)
  with e show ?thesis by blast
qed


theorem detailed_analysis_shape_witness:
  "analyzeLoanDocument (stub (Resolved sample_output)) sample_input 0 = (Inr sample_output, Suc 0) \<and>
   (\<exists>entries. get_prop sample_output (utf16 ''detailed_analysis'') = JArr entries \<and>
           list_all (\<lambda>e. (\<exists>ps. e = JObj ps) \<and>
                         (\<exists>k. get_prop e (utf16 ''flag_key'') = JStr k) \<and>
                         (\<exists>f. get_prop e (utf16 ''finding'') = JStr f) \<and>
                         (get_prop e (utf16 ''is_red_flag'') = JUndefined \<or>
                          (\<exists>b. get_prop e (utf16 ''is_red_flag'') = JBool b))) entries)"
proof -
  have h: "analyzeLoanDocument (stub (Resolved sample_output)) sample_input 0 =
      (Inr sample_output, Suc 0)"
    by (simp add: analyzeLoanDocument_valid sample_input_characters stub_def
        sample_output_conforms output_conforms_truthy)
  from h detailed_analysis_shape
      [of "stub (Resolved sample_output)" sample_input 0 sample_output "Suc 0", OF h]
  show ?thesis
    by (rule conjI)
qed

section \<open>Rendering the prompt\<close>

lemma substitute_skip:
  "x \<notin> set pre \<Longrightarrow> substitute (x # xs) v (pre @ rest) = pre @ substitute (x # xs) v rest"
  by (induction pre) auto

lemma substitute_hit:
  "substitute (x # xs) v ((x # xs) @ rest) = v @ substitute (x # xs) v rest"
  by simp

lemma substitute_none:
  "x \<notin> set t \<Longrightarrow> substitute (x # xs) v t = t"
  using substitute_skip [of x t xs v "[]"] by simp

lemma utf16_append: "utf16 (a @ b) = utf16 a @ utf16 b"
  by (simp add: utf16_def)

lemma code_unit_of_char_eq_iff:
  "(of_char c :: code_unit) = of_char d \<longleftrightarrow> c = d"
proof
  assume "(of_char c :: code_unit) = of_char d"
  then have "(of_nat (of_char c) :: code_unit) = of_nat (of_char d)"
    by (simp add: of_nat_of_char)
  then have "take_bit 16 (of_char c :: nat) = take_bit 16 (of_char d :: nat)"
    by (simp add: word_of_nat_eq_iff)
  moreover have "(of_char c :: nat) < 2 ^ 16" "(of_char d :: nat) < 2 ^ 16"
    by (rule less_trans [OF nat_of_char_less_256], simp)+
  ultimately have "(of_char c :: nat) = of_char d"
    by (simp add: take_bit_nat_eq_self)
  then show "c = d" by simp
qed simp

lemma utf16_notin: "c \<notin> set cs \<Longrightarrow> of_char c \<notin> set (utf16 cs)"
  by (auto simp: utf16_def code_unit_of_char_eq_iff)

lemma intro_no_brace: "CHR ''{'' \<notin> set (promptIntro @ ''--- START DOCUMENT TEXT ---\<newline>'')"
  by (simp add: promptIntro_def)

lemma instructions_no_brace:
  "CHR ''{'' \<notin> set (''\<newline>--- END DOCUMENT TEXT ---\<newline>'' @ promptInstructions)"
  by (simp add: promptInstructions_def)

lemma slot_eq: "utf16 ''{{{pdfTextContent}}}'' = of_char CHR ''{'' # utf16 ''{{pdfTextContent}}}''"
  by (simp add: utf16_def)

lemma promptTemplate_split:
  "promptTemplate =
     utf16 (promptIntro @ ''--- START DOCUMENT TEXT ---\<newline>'') @
     utf16 ''{{{pdfTextContent}}}'' @
     utf16 (''\<newline>--- END DOCUMENT TEXT ---\<newline>'' @ promptInstructions)"
  by (simp add: promptTemplate_def utf16_def)

lemma render_promptTemplate:
  "render promptTemplate input =
     utf16 (promptIntro @ ''--- START DOCUMENT TEXT ---\<newline>'') @
     pdfTextContent input @
     utf16 (''\<newline>--- END DOCUMENT TEXT ---\<newline>'' @ promptInstructions)"
proof -
  let ?x = "of_char CHR ''{'' :: code_unit"
  let ?xs = "utf16 ''{{pdfTextContent}}}''"
  let ?h = "utf16 (promptIntro @ ''--- START DOCUMENT TEXT ---\<newline>'')"
  let ?t = "utf16 (''\<newline>--- END DOCUMENT TEXT ---\<newline>'' @ promptInstructions)"
  have t: "promptTemplate = ?h @ (?x # ?xs) @ ?t"
    by (simp only: promptTemplate_split slot_eq)
  have h: "?x \<notin> set ?h" by (rule utf16_notin [OF intro_no_brace])
  have tl: "?x \<notin> set ?t" by (rule utf16_notin [OF instructions_no_brace])
  have "substitute (?x # ?xs) (pdfTextContent input) promptTemplate
      = ?h @ pdfTextContent input @ ?t"
    unfolding t
    by (simp only: substitute_skip [OF h] substitute_hit substitute_none [OF tl])
  then show ?thesis by (simp only: render_def slot_eq)
qed

text \<open>
  C5. For every input text of at least 100 code units, the prompt rendered from the
  template is the introduction, the line \<open>--- START DOCUMENT TEXT ---\<close>, the input
  text exactly as given, the line \<open>--- END DOCUMENT TEXT ---\<close> and the instructions:
  the text stands verbatim between the two markers. This rendered text is what the
  prompt hands to the model endpoint.
\<close>

theorem rendered_prompt_contains_text:
  assumes "100 \<le> length (pdfTextContent input)"
  shows "render promptTemplate input =
           utf16 promptIntro @
           utf16 ''--- START DOCUMENT TEXT ---\<newline>'' @
           pdfTextContent input @
           utf16 ''\<newline>--- END DOCUMENT TEXT ---\<newline>'' @
           utf16 promptInstructions \<and>
         prompt endpoint input s =
           endpoint
             (utf16 promptIntro @
              utf16 ''--- START DOCUMENT TEXT ---\<newline>'' @
              pdfTextContent input @
              utf16 ''\<newline>--- END DOCUMENT TEXT ---\<newline>'' @
              utf16 promptInstructions)
             AnalyzeLoanDocumentOutputSchema s"
  by (simp only: prompt_def definePrompt_def render_promptTemplate utf16_append append_assoc)

theorem rendered_prompt_contains_text_witness:
  "100 \<le> length (pdfTextContent sample_input) \<and>
   render promptTemplate sample_input =
     utf16 promptIntro @
     utf16 ''--- START DOCUMENT TEXT ---\<newline>'' @
     sample_text @
     utf16 ''\<newline>--- END DOCUMENT TEXT ---\<newline>'' @
     utf16 promptInstructions"
proof -
  have h: "100 \<le> length (pdfTextContent sample_input)"
    by (rule sample_input_length)
  show ?thesis
    using h rendered_prompt_contains_text [of sample_input "\<lambda>t z (u::unit). (Resolved JNull, u)" "()", OF h]
    by (simp add: sample_input_def)
qed

section \<open>Calls and state\<close>

text \<open>
  C7. In every call the dependency is invoked at most once: a counting dependency that
  starts at \<open>n\<close> ends at \<open>n\<close> when the input is rejected and at \<open>n + 1\<close> otherwise,
  whether the call then succeeds or fails. No failure path invokes it a second time.
\<close>

theorem dependency_called_at_most_once:
  "snd (snd (analyzeLoanDocument (counted dep) input (s, n))) =
     (if 100 \<le> character_count (pdfTextContent input) then Suc n else n) \<and>
   snd (snd (analyzeLoanDocument (counted dep) input (s, n))) \<le> Suc n"
  by (cases "100 \<le> character_count (pdfTextContent input)")
     (auto simp add: analyzeLoanDocument_valid analyzeLoanDocument_invalid counted_def
      split: prod.splits prompt_outcome.splits)

theorem dependency_called_at_most_once_witness:
  "snd (snd (analyzeLoanDocument
      (counted (stub (Rejected (Thrown (Some (utf16 ''boom'')))))) sample_input (0, 0))) = Suc 0 \<and>
   snd (snd (analyzeLoanDocument
      (counted (stub (Rejected (Thrown (Some (utf16 ''boom'')))))) sample_input (0, 0))) \<le> Suc 0"
  using dependency_called_at_most_once
    [of "stub (Rejected (Thrown (Some (utf16 ''boom''))))" sample_input 0 0]
  by (simp add: sample_input_characters)


lemma console_erasure:
  "fst (analyzeLoanDocument_io dep input w) = fst (analyzeLoanDocument dep input (dependency_state w)) \<and>
   dependency_state (snd (analyzeLoanDocument_io dep input w)) =
     snd (analyzeLoanDocument dep input (dependency_state w))"
  by (auto simp add: analyzeLoanDocument_io_def analyzeLoanDocumentFlow_io_def
      analyzeLoanDocumentFlow_fn_io_def flow_try_io_def console_write_def
      analyzeLoanDocument_def analyzeLoanDocumentFlow_def analyzeLoanDocumentFlow_fn_def
      flow_try_def defineFlow_def
      split: prod.splits prompt_outcome.splits sum.splits if_splits)




end
